theory Spec2Isabelle
  imports Main "HOL-Library.Sublist" "HOL-Library.Multiset"
begin

section \<open>Strings\<close>

text \<open>
  A Python \<open>str\<close> is modelled as a \<^typ>\<open>string\<close>, one \<^typ>\<open>char\<close> per character.
  Case conversion is the ASCII one: the 26 letters are mapped, every other character is
  left as it is. The paths and HTTP bodies the scanner works on are ASCII text, and no
  theorem below depends on what case conversion does to a character outside ASCII.
\<close>

definition upper_letters :: string where
  "upper_letters = ''ABCDEFGHIJKLMNOPQRSTUVWXYZ''"

definition lower_letters :: string where
  "lower_letters = ''abcdefghijklmnopqrstuvwxyz''"

definition digits :: string where
  "digits = ''0123456789''"

definition is_upper :: "char \<Rightarrow> bool" where
  "is_upper c = (c \<in> set upper_letters)"

definition is_lower :: "char \<Rightarrow> bool" where
  "is_lower c = (c \<in> set lower_letters)"

definition is_alpha :: "char \<Rightarrow> bool" where
  "is_alpha c = (is_upper c \<or> is_lower c)"

definition is_digit :: "char \<Rightarrow> bool" where
  "is_digit c = (c \<in> set digits)"

definition lower_char :: "char \<Rightarrow> char" where
  "lower_char c = (case map_of (zip upper_letters lower_letters) c of Some d \<Rightarrow> d | None \<Rightarrow> c)"

definition upper_char :: "char \<Rightarrow> char" where
  "upper_char c = (case map_of (zip lower_letters upper_letters) c of Some d \<Rightarrow> d | None \<Rightarrow> c)"

text \<open>\<open>s.lower()\<close> and \<open>s.upper()\<close>.\<close>

definition lower :: "string \<Rightarrow> string" where
  "lower s = map lower_char s"

definition upper :: "string \<Rightarrow> string" where
  "upper s = map upper_char s"

text \<open>
  \<open>pat in s\<close> on strings is \<^term>\<open>sublist pat s\<close>: \<open>pat\<close> occurs in \<open>s\<close> as a
  contiguous block. \<open>s.startswith(pat)\<close> is \<^term>\<open>prefix pat s\<close>.
\<close>

section \<open>The request manager (core/request\_manager.py)\<close>

text \<open>
  What the code reads of a \<open>requests.Response\<close>: the status code, the decoded body
  (\<open>response.text\<close>), the raw body (\<open>response.content\<close>) and the content-type header,
  absent when the server sent none.
\<close>

record response =
  status_code :: int
  resp_text :: string
  resp_content :: string
  content_type_header :: "string option"

text \<open>
  The exceptions \<open>session.request\<close> can raise, by the \<open>except\<close> clause of
  \<open>smart_request\<close> that catches them: \<open>requests.Timeout\<close>,
  \<open>requests.ConnectionError\<close>, any other \<open>requests.RequestException\<close>, and any
  other subclass of \<open>Exception\<close>.
\<close>

datatype exn =
    Timeout string
  | ConnectionError string
  | RequestException string
  | OtherException string

text \<open>\<open>str(e)\<close>: the message the exception carries.\<close>

fun str_of_exn :: "exn \<Rightarrow> string" where
  "str_of_exn (Timeout m) = m"
| "str_of_exn (ConnectionError m) = m"
| "str_of_exn (RequestException m) = m"
| "str_of_exn (OtherException m) = m"

subsection \<open>\<open>_should_retry\<close>\<close>

definition waf_indicators :: "string list" where
  "waf_indicators = [''cloudflare'', ''waf'', ''challenge'', ''captcha'', ''security'']"

definition should_retry :: "response option \<Rightarrow> int \<Rightarrow> bool \<times> int" where
  "should_retry response attempt =
     (case response of
        None \<Rightarrow> (True, (attempt + 1) * 2)
      | Some r \<Rightarrow>
          if status_code r \<in> {429, 420} then (True, (attempt + 1) * 5)
          else if status_code r \<ge> 500 then (True, (attempt + 1) * 3)
          else if status_code r \<in> {403, 406} \<and>
                  list_ex (\<lambda>indicator. sublist indicator (lower (resp_text r))) waf_indicators
               then (True, (attempt + 1) * 4)
          else (False, 0))"

subsection \<open>\<open>smart_request\<close>\<close>

text \<open>
  One pass through the body of the \<open>for attempt in range(max_retries)\<close> loop either
  goes on to the next attempt (\<open>continue\<close>, or the end of an \<open>except\<close> clause) or
  returns the response.
\<close>

datatype step = Next_attempt | Return response

text \<open>
  The \<open>try\<close> block: \<open>outcome\<close> is what \<open>session.request\<close> did on this attempt, an
  exception raised or a response returned.
\<close>

definition try_block :: "int \<Rightarrow> exn + response \<Rightarrow> int \<Rightarrow> exn + step" where
  "try_block max_retries outcome attempt =
     (case outcome of
        Inl e \<Rightarrow> Inl e
      | Inr r \<Rightarrow>
          (case should_retry (Some r) attempt of
             (retry, wait_time) \<Rightarrow>
               if retry \<and> attempt < max_retries - 1 then Inr Next_attempt
               else Inr (Return r)))"

text \<open>
  The four \<open>except\<close> clauses, in the source's order. Each one delays and continues
  when attempts are left and otherwise falls off its end; in both cases the loop goes
  on. An exception that no clause caught would be the \<open>Inl\<close> result.
\<close>

definition except_clauses :: "int \<Rightarrow> exn \<Rightarrow> int \<Rightarrow> exn + step" where
  "except_clauses max_retries e attempt =
     (case e of
        Timeout m \<Rightarrow> (if attempt < max_retries - 1 then Inr Next_attempt else Inr Next_attempt)
      | ConnectionError m \<Rightarrow> (if attempt < max_retries - 1 then Inr Next_attempt else Inr Next_attempt)
      | RequestException m \<Rightarrow> (if attempt < max_retries - 1 then Inr Next_attempt else Inr Next_attempt)
      | OtherException m \<Rightarrow> (if attempt < max_retries - 1 then Inr Next_attempt else Inr Next_attempt))"

definition loop_body :: "int \<Rightarrow> exn + response \<Rightarrow> int \<Rightarrow> exn + step" where
  "loop_body max_retries outcome attempt =
     (case try_block max_retries outcome attempt of
        Inl e \<Rightarrow> except_clauses max_retries e attempt
      | Inr s \<Rightarrow> Inr s)"

text \<open>
  The loop over the attempt indices. \<open>env a\<close> is the outcome of the request made on
  attempt \<open>a\<close>; the second component of the result counts the requests made. After the
  last index the function returns \<open>None\<close>.
\<close>

fun attempts_loop ::
  "int \<Rightarrow> (nat \<Rightarrow> exn + response) \<Rightarrow> nat list \<Rightarrow> nat \<Rightarrow> exn + (response option \<times> nat)" where
  "attempts_loop max_retries env [] made = Inr (None, made)"
| "attempts_loop max_retries env (a # as) made =
     (case loop_body max_retries (env a) (int a) of
        Inl e \<Rightarrow> Inl e
      | Inr Next_attempt \<Rightarrow> attempts_loop max_retries env as (Suc made)
      | Inr (Return r) \<Rightarrow> Inr (Some r, Suc made))"

definition smart_request ::
  "int \<Rightarrow> (nat \<Rightarrow> exn + response) \<Rightarrow> exn + (response option \<times> nat)" where
  "smart_request max_retries env = attempts_loop max_retries env [0..<nat max_retries] 0"

section \<open>Probing one path (core/scanner\_engine.py, \<open>scan_paths\<close>)\<close>

text \<open>
  The dictionary \<open>scan_single_path\<close> returns has the keys \<open>url\<close> and \<open>path\<close>
  and, depending on the branch, \<open>error\<close>, or \<open>status_code\<close>, \<open>content_length\<close>,
  \<open>content_type\<close>, \<open>success\<close> and sometimes \<open>saved\<close>. A key that may be absent
  is an \<open>option\<close> field, \<open>None\<close> when the dictionary lacks it.
\<close>

record probe_result =
  res_url :: string
  res_path :: string
  res_status_code :: "int option"
  res_content_length :: "nat option"
  res_content_type :: "string option"
  res_success :: "bool option"
  res_saved :: "bool option"
  res_error :: "string option"

text \<open>The counters \<open>found_count\<close> and \<open>error_count\<close> that the closure updates.\<close>

record counters =
  found_count :: nat
  error_count :: nat

text \<open>
  How the response is fetched. With a request manager (\<open>self.request_manager\<close>, built
  as \<open>RequestManager()\<close>, hence with the default \<open>max_retries = 3\<close>) it is
  \<open>smart_request\<close>, over the outcomes of the attempts. Without one it is
  \<open>evasion_engine.stealth_request\<close> or \<open>session.get\<close>, of which the model keeps the
  outcome: an exception raised, or the value returned (which may be \<open>None\<close>).
\<close>

datatype fetch =
    Manager_fetch "nat \<Rightarrow> exn + response"
  | Direct_fetch "exn + response option"

definition default_max_retries :: int where
  "default_max_retries = 3"

definition do_fetch :: "fetch \<Rightarrow> exn + response option" where
  "do_fetch f =
     (case f of
        Manager_fetch env \<Rightarrow>
          (case smart_request default_max_retries env of
             Inl e \<Rightarrow> Inl e
           | Inr (r, made) \<Rightarrow> Inr r)
      | Direct_fetch outcome \<Rightarrow> outcome)"

text \<open>The condition under which a response is a finding (lines 417 to 419).\<close>

definition text_types :: "string list" where
  "text_types = [''text'', ''json'', ''javascript'', ''html'', ''xml'']"

definition valid_finding :: "int \<Rightarrow> nat \<Rightarrow> string \<Rightarrow> bool" where
  "valid_finding status len ctype =
     (status = 200 \<and> len > 20 \<and>
      list_ex (\<lambda>text_type. sublist text_type (lower ctype)) text_types)"

definition error_result :: "string \<Rightarrow> string \<Rightarrow> string \<Rightarrow> probe_result" where
  "error_result target_url p msg =
     \<lparr>res_url = target_url, res_path = p, res_status_code = None,
      res_content_length = None, res_content_type = None, res_success = None,
      res_saved = None, res_error = Some msg\<rparr>"

text \<open>
  \<open>scan_single_path\<close>. \<open>urljoin\<close> is \<open>urllib.parse.urljoin\<close>; \<open>save\<close> is the
  outcome of \<open>intelligent_save\<close> on this path, an exception or the boolean it returns
  (it is reached only for a finding). The function returns the dictionary and the
  updated counters.
\<close>

definition scan_single_path ::
  "(string \<Rightarrow> string \<Rightarrow> string) \<Rightarrow> string \<Rightarrow> fetch \<Rightarrow> exn + bool \<Rightarrow> string \<Rightarrow> counters
     \<Rightarrow> probe_result \<times> counters" where
  "scan_single_path urljoin base_url f save p c =
     (let target_url = urljoin base_url p in
      case do_fetch f of
        Inl e \<Rightarrow>
          (error_result target_url p (str_of_exn e), c\<lparr>error_count := error_count c + 1\<rparr>)
      | Inr None \<Rightarrow>
          (error_result target_url p ''request_failed'', c\<lparr>error_count := error_count c + 1\<rparr>)
      | Inr (Some r) \<Rightarrow>
          (let result =
                 \<lparr>res_url = target_url, res_path = p,
                  res_status_code = Some (status_code r),
                  res_content_length = Some (length (resp_content r)),
                  res_content_type =
                    Some (case content_type_header r of None \<Rightarrow> [] | Some t \<Rightarrow> t),
                  res_success = Some False, res_saved = None, res_error = None\<rparr>
           in if valid_finding (status_code r) (length (resp_content r))
                   (case content_type_header r of None \<Rightarrow> [] | Some t \<Rightarrow> t)
              then (result\<lparr>res_success := Some True,
                           res_saved := Some (case save of Inl e \<Rightarrow> False | Inr b \<Rightarrow> b)\<rparr>,
                    c\<lparr>found_count := found_count c + 1\<rparr>)
              else (result, c)))"

text \<open>
  \<open>scan_paths\<close> returns the list of the dictionaries, one per path, in the order in
  which the pool completes them: \<open>completed\<close> is the list of paths in that order.
  The counters are printed and not returned. Each worker starts from the counters it
  finds; the returned dictionaries do not depend on them.
\<close>

definition scan_paths ::
  "(string \<Rightarrow> string \<Rightarrow> string) \<Rightarrow> string \<Rightarrow> (string \<Rightarrow> fetch) \<Rightarrow> (string \<Rightarrow> exn + bool)
     \<Rightarrow> counters \<Rightarrow> string list \<Rightarrow> probe_result list" where
  "scan_paths urljoin base_url fetch_of save_of c completed =
     map (\<lambda>p. fst (scan_single_path urljoin base_url (fetch_of p) (save_of p) p c)) completed"

section \<open>Specification-side notions\<close>

text \<open>
  A string contains \<open>pat\<close> case-insensitively when one of its contiguous blocks is
  \<open>pat\<close> up to the case of its letters.
\<close>

definition contains_ci :: "string \<Rightarrow> string \<Rightarrow> bool" where
  "contains_ci pat s = (\<exists>w. sublist w s \<and> lower w = pat)"

text \<open>The retry condition in the words of the specification.\<close>

definition spec_retry :: "response \<Rightarrow> bool" where
  "spec_retry r =
     (status_code r \<in> {429, 420} \<or> status_code r \<ge> 500 \<or>
      (status_code r \<in> {403, 406} \<and>
       (\<exists>pat \<in> {''cloudflare'', ''waf'', ''challenge'', ''captcha'', ''security''}.
          contains_ci pat (resp_text r))))"

section \<open>Properties of the retry decision\<close>

lemma sublist_map_iff:
  "sublist pat (map f s) \<longleftrightarrow> (\<exists>w. sublist w s \<and> map f w = pat)"
proof
  assume "sublist pat (map f s)"
  then obtain ps ss where "map f s = ps @ pat @ ss"
    by (auto simp: sublist_def)
  then have "\<exists>us vs. s = us @ vs \<and> ps = map f us \<and> pat @ ss = map f vs"
    unfolding map_eq_append_conv .
  then obtain a vs where 1: "s = a @ vs" "pat @ ss = map f vs"
    by blast
  from 1(2) have "\<exists>us ws. vs = us @ ws \<and> pat = map f us \<and> ss = map f ws"
    unfolding append_eq_map_conv .
  then obtain b c where 2: "vs = b @ c" "pat = map f b"
    by blast
  from 1 2 have "sublist b s"
    by simp
  with 2 show "\<exists>w. sublist w s \<and> map f w = pat"
    by blast
next
  assume "\<exists>w. sublist w s \<and> map f w = pat"
  then show "sublist pat (map f s)"
    using map_mono_sublist by blast
qed

lemma contains_ci_lower: "contains_ci pat s \<longleftrightarrow> sublist pat (lower s)"
  by (simp add: contains_ci_def lower_def sublist_map_iff)

lemma spec_retry_code:
  "spec_retry r \<longleftrightarrow>
     status_code r \<in> {429, 420} \<or> status_code r \<ge> 500 \<or>
     (status_code r \<in> {403, 406} \<and>
      list_ex (\<lambda>indicator. sublist indicator (lower (resp_text r))) waf_indicators)"
  by (simp add: spec_retry_def contains_ci_lower list_ex_iff waf_indicators_def)

text \<open>
  Claim C1. For a response with status \<open>s\<close> and any attempt index, \<open>_should_retry\<close>
  decides to retry exactly when \<open>s\<close> is 429 or 420, or \<open>s \<ge> 500\<close>, or \<open>s\<close> is 403
  or 406 and the body contains, case-insensitively, one of "cloudflare", "waf",
  "challenge", "captcha", "security"; for every other response it returns
  \<open>(False, 0)\<close>.
\<close>

theorem should_retry_iff_spec:
  "fst (should_retry (Some r) n) = spec_retry r \<and>
   (\<not> spec_retry r \<longrightarrow> should_retry (Some r) n = (False, 0))"
  unfolding spec_retry_code by (simp add: should_retry_def)

theorem should_retry_iff_spec_witness:
  "\<not> spec_retry \<lparr>status_code = 404, resp_text = ''Not Found'', resp_content = ''Not Found'',
       content_type_header = None\<rparr> \<and>
   should_retry (Some \<lparr>status_code = 404, resp_text = ''Not Found'', resp_content = ''Not Found'',
       content_type_header = None\<rparr>) 1 = (False, 0) \<and>
   \<not> spec_retry \<lparr>status_code = 403, resp_text = ''Forbidden'', resp_content = ''Forbidden'',
       content_type_header = None\<rparr> \<and>
   should_retry (Some \<lparr>status_code = 403, resp_text = ''Forbidden'', resp_content = ''Forbidden'',
       content_type_header = None\<rparr>) 0 = (False, 0) \<and>
   spec_retry \<lparr>status_code = 403, resp_text = ''CAPTCHA'', resp_content = ''CAPTCHA'',
       content_type_header = None\<rparr>"
proof -
  let ?a = "\<lparr>status_code = 404, resp_text = ''Not Found'', resp_content = ''Not Found'',
       content_type_header = None\<rparr>"
  let ?b = "\<lparr>status_code = 403, resp_text = ''Forbidden'', resp_content = ''Forbidden'',
       content_type_header = None\<rparr>"
  let ?c = "\<lparr>status_code = 403, resp_text = ''CAPTCHA'', resp_content = ''CAPTCHA'',
       content_type_header = None\<rparr>"
  have a: "\<not> spec_retry ?a"
    by (simp add: spec_retry_def)
  have b: "\<not> spec_retry ?b"
    unfolding spec_retry_code by code_simp
  have c: "spec_retry ?c"
    unfolding spec_retry_code by code_simp
  from a b c should_retry_iff_spec [of ?a 1] should_retry_iff_spec [of ?b 0]
  show ?thesis by blast
qed

section \<open>Properties of \<open>smart_request\<close>\<close>

lemma loop_body_total: "\<exists>s. loop_body m out a = Inr s"
  by (auto simp: loop_body_def try_block_def except_clauses_def
      split: sum.splits exn.splits prod.splits)

lemma attempts_loop_total:
  "\<exists>res k. attempts_loop m env as made = Inr (res, k) \<and> k \<le> made + length as \<and>
     (res = None \<longrightarrow> k = made + length as)"
proof (induction as arbitrary: made)
  case Nil
  then show ?case by simp
next
  case (Cons a as)
  obtain s where s: "loop_body m (env a) (int a) = Inr s"
    using loop_body_total by blast
  show ?case
  proof (cases s)
    case Next_attempt
    with s Cons.IH [of "Suc made"] show ?thesis by auto
  next
    case (Return r)
    with s show ?thesis by simp
  qed
qed

text \<open>
  Claim C9. Whatever the attempt budget and whatever each attempt does (a response, a
  timeout, a connection error, another request exception or any other exception),
  \<open>smart_request\<close> returns: its result is never a propagated exception, it makes at
  most \<open>max_retries\<close> requests, and it returns \<open>None\<close> only after making all of them.
\<close>

theorem smart_request_total:
  "\<exists>res made. smart_request m env = Inr (res, made) \<and> made \<le> nat m \<and>
     (res = None \<longrightarrow> made = nat m)"
  using attempts_loop_total [of m env "[0..<nat m]" 0] by (simp add: smart_request_def)

theorem smart_request_total_witness:
  "smart_request 2 (\<lambda>a. Inl (Timeout ''read timed out'')) = Inr (None, nat 2)"
proof -
  obtain res made where
    *: "smart_request 2 (\<lambda>a. Inl (Timeout ''read timed out'')) = Inr (res, made)"
       "res = None \<longrightarrow> made = nat 2"
    using smart_request_total [of 2 "\<lambda>a. Inl (Timeout ''read timed out'')"] by blast
  have "smart_request 2 (\<lambda>a. Inl (Timeout ''read timed out'')) = Inr (None, 2)"
    by (simp add: smart_request_def upt_rec loop_body_def try_block_def except_clauses_def)
  with *(1) have "res = None"
    by simp
  with * show ?thesis
    by simp
qed

section \<open>Properties of the probe\<close>

lemma should_retry_500: "status_code r = 500 \<Longrightarrow> should_retry (Some r) n = (True, (n + 1) * 3)"
  by (simp add: should_retry_def)

lemma loop_body_500:
  "status_code r = 500 \<Longrightarrow>
   loop_body m (Inr r) a = (if a < m - 1 then Inr Next_attempt else Inr (Return r))"
  by (simp add: loop_body_def try_block_def should_retry_500)

text \<open>
  Claim C6. With \<open>max_retries = 3\<close> and a target that answers every attempt with
  status 500, \<open>smart_request\<close> makes exactly 3 requests and returns normally the
  response of the last attempt; the probe \<open>scan_single_path\<close> built on it returns a
  result with status code 500 and no error.
\<close>

theorem retry_exhaustion:
  assumes "\<forall>a. \<exists>r. env a = Inr r \<and> status_code r = 500"
  shows "\<exists>r. env 2 = Inr r \<and> status_code r = 500 \<and>
           smart_request 3 env = Inr (Some r, 3) \<and>
           fst (scan_single_path urljoin base_url (Manager_fetch env) save p c) =
             \<lparr>res_url = urljoin base_url p, res_path = p, res_status_code = Some 500,
              res_content_length = Some (length (resp_content r)),
              res_content_type = Some (case content_type_header r of None \<Rightarrow> [] | Some t \<Rightarrow> t),
              res_success = Some False, res_saved = None, res_error = None\<rparr>"
proof -
  from assms obtain r0 r1 r2 where
    r: "env 0 = Inr r0" "status_code r0 = 500" "env 1 = Inr r1" "status_code r1 = 500"
       "env 2 = Inr r2" "status_code r2 = 500"
    by metis
  have up: "[0..<nat 3] = [0, 1, 2]"
    by (simp add: upt_rec)
  have sr: "smart_request 3 env = Inr (Some r2, 3)"
    unfolding smart_request_def up using r
    by (simp add: loop_body_500 One_nat_def [symmetric] del: One_nat_def)
  have "fst (scan_single_path urljoin base_url (Manager_fetch env) save p c) =
             \<lparr>res_url = urljoin base_url p, res_path = p, res_status_code = Some 500,
              res_content_length = Some (length (resp_content r2)),
              res_content_type = Some (case content_type_header r2 of None \<Rightarrow> [] | Some t \<Rightarrow> t),
              res_success = Some False, res_saved = None, res_error = None\<rparr>"
    using sr r(6)
    by (simp add: scan_single_path_def do_fetch_def default_max_retries_def valid_finding_def Let_def)
  with r sr show ?thesis by blast
qed

theorem retry_exhaustion_witness:
  "(\<forall>a::nat. \<exists>r. (Inr \<lparr>status_code = 500, resp_text = ''oops'', resp_content = ''oops'',
        content_type_header = Some ''text/plain''\<rparr> :: exn + response) = Inr r \<and> status_code r = 500) \<and>
   smart_request 3 (\<lambda>a. Inr \<lparr>status_code = 500, resp_text = ''oops'', resp_content = ''oops'',
        content_type_header = Some ''text/plain''\<rparr>) =
     Inr (Some \<lparr>status_code = 500, resp_text = ''oops'', resp_content = ''oops'',
        content_type_header = Some ''text/plain''\<rparr>, 3)"
proof -
  let ?r = "\<lparr>status_code = 500, resp_text = ''oops'', resp_content = ''oops'',
        content_type_header = Some ''text/plain''\<rparr>"
  let ?env = "\<lambda>a::nat. (Inr ?r :: exn + response)"
  have h: "\<forall>a. \<exists>r. ?env a = Inr r \<and> status_code r = 500"
    by simp
  from retry_exhaustion [OF h, of "(@)" "[]" "Inr True" "''/''" "\<lparr>found_count = 0, error_count = 0\<rparr>"]
  have "smart_request 3 ?env = Inr (Some ?r, 3)"
    by auto
  with h show ?thesis
    by blast
qed

lemma scan_single_path_error:
  "res_error (fst (scan_single_path urljoin base_url f save p c)) \<noteq> None \<Longrightarrow>
   res_status_code (fst (scan_single_path urljoin base_url f save p c)) = None"
  by (auto simp: scan_single_path_def error_result_def Let_def
      split: sum.splits option.splits if_splits)

lemma scan_single_path_status:
  "do_fetch f = Inr (Some r) \<Longrightarrow>
   res_status_code (fst (scan_single_path urljoin base_url f save p c)) = Some (status_code r) \<and>
   res_error (fst (scan_single_path urljoin base_url f save p c)) = None"
  by (simp add: scan_single_path_def Let_def)

text \<open>
  Claim C8. In every per-path result, a result that carries an error carries no status
  code; and whenever a response was received, whatever its status, the result carries
  that status code and no error.
\<close>

theorem error_excludes_status:
  "(\<forall>res \<in> set (scan_paths urljoin base_url fetch_of save_of c completed).
      res_error res \<noteq> None \<longrightarrow> res_status_code res = None) \<and>
   (\<forall>r. do_fetch f = Inr (Some r) \<longrightarrow>
      res_status_code (fst (scan_single_path urljoin base_url f save p c)) = Some (status_code r) \<and>
      res_error (fst (scan_single_path urljoin base_url f save p c)) = None)"
  using scan_single_path_error scan_single_path_status
  by (auto simp: scan_paths_def)

theorem error_excludes_status_witness:
  "error_result ''https://example.test/admin'' ''/admin'' ''request_failed''
     \<in> set (scan_paths (@) ''https://example.test'' (\<lambda>p. Direct_fetch (Inr None)) (\<lambda>p. Inr True)
         \<lparr>found_count = 0, error_count = 0\<rparr> [''/admin'']) \<and>
   res_error (error_result ''https://example.test/admin'' ''/admin'' ''request_failed'') \<noteq> None \<and>
   res_status_code (error_result ''https://example.test/admin'' ''/admin'' ''request_failed'') = None \<and>
   do_fetch (Direct_fetch (Inr (Some \<lparr>status_code = 404, resp_text = ''gone'', resp_content = ''gone'',
        content_type_header = None\<rparr>))) =
     Inr (Some \<lparr>status_code = 404, resp_text = ''gone'', resp_content = ''gone'',
        content_type_header = None\<rparr>) \<and>
   res_status_code (fst (scan_single_path (@) ''https://example.test''
      (Direct_fetch (Inr (Some \<lparr>status_code = 404, resp_text = ''gone'', resp_content = ''gone'',
        content_type_header = None\<rparr>))) (Inr True) ''/x'' \<lparr>found_count = 0, error_count = 0\<rparr>)) = Some 404 \<and>
   res_error (fst (scan_single_path (@) ''https://example.test''
      (Direct_fetch (Inr (Some \<lparr>status_code = 404, resp_text = ''gone'', resp_content = ''gone'',
        content_type_header = None\<rparr>))) (Inr True) ''/x'' \<lparr>found_count = 0, error_count = 0\<rparr>)) = None"
proof -
  let ?e = "error_result ''https://example.test/admin'' ''/admin'' ''request_failed''"
  let ?r = "\<lparr>status_code = 404, resp_text = ''gone'', resp_content = ''gone'',
        content_type_header = None\<rparr>"
  let ?c = "\<lparr>found_count = 0, error_count = 0\<rparr>"
  have m: "?e \<in> set (scan_paths (@) ''https://example.test'' (\<lambda>p. Direct_fetch (Inr None))
      (\<lambda>p. Inr True) ?c [''/admin''])"
    by (simp add: scan_paths_def scan_single_path_def do_fetch_def)
  have e: "res_error ?e \<noteq> None"
    by (simp add: error_result_def)
  have d: "do_fetch (Direct_fetch (Inr (Some ?r))) = Inr (Some ?r)"
    by (simp add: do_fetch_def)
  note t = error_excludes_status [of "(@)" "''https://example.test''" "\<lambda>p. Direct_fetch (Inr None)"
      "\<lambda>p. Inr True" ?c "[''/admin'']" "Direct_fetch (Inr (Some ?r))" "Inr True" "''/x''"]
  from t m e have 1: "res_status_code ?e = None"
    by blast
  from t d have 2: "res_status_code (fst (scan_single_path (@) ''https://example.test''
      (Direct_fetch (Inr (Some ?r))) (Inr True) ''/x'' ?c)) = Some (status_code ?r) \<and>
      res_error (fst (scan_single_path (@) ''https://example.test''
      (Direct_fetch (Inr (Some ?r))) (Inr True) ''/x'' ?c)) = None"
    by blast
  from m e 1 d 2 show ?thesis
    by simp
qed

section \<open>The finding threshold\<close>

text \<open>
  Claim C2, as stated, fails: a response with status 200, content type \<open>text/html\<close>
  and a body of exactly 20 bytes is not classified as a finding.
\<close>

theorem finding_at_threshold_counterexample:
  "res_success (fst (scan_single_path (@) ''https://example.test''
      (Direct_fetch (Inr (Some \<lparr>status_code = 200, resp_text = ''<html>abcdefg</html>'',
         resp_content = ''<html>abcdefg</html>'', content_type_header = Some ''text/html''\<rparr>)))
      (Inr True) ''/api'' \<lparr>found_count = 0, error_count = 0\<rparr>)) = Some False \<and>
   length ''<html>abcdefg</html>'' = 20"
  by (simp add: scan_single_path_def do_fetch_def valid_finding_def)

lemma html_is_text_type: "list_ex (\<lambda>text_type. sublist text_type (lower ''text/html'')) text_types"
  by code_simp

text \<open>
  Claim C2, amended. A response with status 200 and content type \<open>text/html\<close> is
  classified as a finding exactly when its content length is strictly greater than 20
  bytes: lengths 19 and 20 are not findings, length 21 is.
\<close>

theorem finding_above_threshold:
  assumes "do_fetch f = Inr (Some r)"
    and "status_code r = 200"
    and "content_type_header r = Some ''text/html''"
  shows "res_success (fst (scan_single_path urljoin base_url f save p c)) =
           Some (20 < length (resp_content r))"
  using assms html_is_text_type
  by (simp add: scan_single_path_def valid_finding_def Let_def)

theorem finding_above_threshold_witness:
  "do_fetch (Direct_fetch (Inr (Some \<lparr>status_code = 200, resp_text = ''<html>abcdefgh</html>'',
         resp_content = ''<html>abcdefgh</html>'', content_type_header = Some ''text/html''\<rparr>))) =
     Inr (Some \<lparr>status_code = 200, resp_text = ''<html>abcdefgh</html>'',
         resp_content = ''<html>abcdefgh</html>'', content_type_header = Some ''text/html''\<rparr>) \<and>
   res_success (fst (scan_single_path (@) ''https://example.test''
      (Direct_fetch (Inr (Some \<lparr>status_code = 200, resp_text = ''<html>abcdefgh</html>'',
         resp_content = ''<html>abcdefgh</html>'', content_type_header = Some ''text/html''\<rparr>)))
      (Inr True) ''/api'' \<lparr>found_count = 0, error_count = 0\<rparr>)) = Some True"
proof -
  let ?r = "\<lparr>status_code = 200, resp_text = ''<html>abcdefgh</html>'',
         resp_content = ''<html>abcdefgh</html>'', content_type_header = Some ''text/html''\<rparr>"
  have d: "do_fetch (Direct_fetch (Inr (Some ?r))) = Inr (Some ?r)"
    by (simp add: do_fetch_def)
  from finding_above_threshold [OF d, of "(@)" "''https://example.test''" "Inr True" "''/api''"
      "\<lparr>found_count = 0, error_count = 0\<rparr>"] d
  show ?thesis
    by simp
qed

end
